theory Spec2Isabelle
  imports Complex_Main
begin

section \<open>Strings, identifiers and documents\<close>

text \<open>
  The controllers of the student management system work on four MongoDB collections
  (Department, Class, Course, Student) through Mongoose models. A document identifier
  (an ObjectId) is modelled as a natural number. A request names a document by a text that
  Mongoose casts to the identifier; the handlers other than updateCourse are modelled on
  requests whose texts are the canonical ones (what \<^verbatim>\<open>toString()\<close> gives),
  so there the model takes the identifier itself. updateCourse compares the texts of the
  request with \<^verbatim>\<open>toString()\<close> of an identifier before Mongoose casts them:
  its model keeps the texts. JavaScript numbers that the controllers only add one to,
  subtract one from and compare are integers.
\<close>

type_synonym oid = nat

text \<open>
  The text of an identifier, \<^verbatim>\<open>toString()\<close>: 24 hexadecimal digits in
  lower case. The cast of a text to an identifier, as Mongoose 8 (the version that the
  README names) does it: a text of 24 hexadecimal digits, in either case, is the
  identifier that it spells; any other text raises a CastError.
\<close>

definition hexDigit :: "nat \<Rightarrow> char" where
  "hexDigit n = (if n < 10 then char_of (48 + n) else char_of (87 + n))"

primrec hexText :: "nat \<Rightarrow> nat \<Rightarrow> string" where
  "hexText 0 n = []"
| "hexText (Suc k) n = hexText k (n div 16) @ [hexDigit (n mod 16)]"

definition idText :: "oid \<Rightarrow> string" where
  "idText i = hexText 24 i"

definition hexValue :: "char \<Rightarrow> nat option" where
  "hexValue c =
     (let n = (of_char c :: nat) in
      if 48 \<le> n \<and> n \<le> 57 then Some (n - 48)
      else if 97 \<le> n \<and> n \<le> 102 then Some (n - 87)
      else if 65 \<le> n \<and> n \<le> 70 then Some (n - 55)
      else None)"

primrec hexNumber :: "nat \<Rightarrow> string \<Rightarrow> nat option" where
  "hexNumber acc [] = Some acc"
| "hexNumber acc (c # cs) =
     (case hexValue c of None \<Rightarrow> None | Some v \<Rightarrow> hexNumber (16 * acc + v) cs)"

definition castObjectId :: "string \<Rightarrow> oid option" where
  "castObjectId t = (if length t = 24 then hexNumber 0 t else None)"

primrec castObjectIds :: "string list \<Rightarrow> oid list option" where
  "castObjectIds [] = Some []"
| "castObjectIds (t # ts) =
     (case castObjectId t of
        None \<Rightarrow> None
      | Some i \<Rightarrow> (case castObjectIds ts of None \<Rightarrow> None | Some rest \<Rightarrow> Some (i # rest)))"

text \<open>
  \<^verbatim>\<open>String.prototype.toLowerCase\<close>, \<^verbatim>\<open>toUpperCase\<close> and the
  schema option \<^verbatim>\<open>trim\<close>, on ASCII text.
\<close>

definition lowerChar :: "char \<Rightarrow> char" where
  "lowerChar c =
     (let n = (of_char c :: nat) in if 65 \<le> n \<and> n \<le> 90 then char_of (n + 32) else c)"

definition upperChar :: "char \<Rightarrow> char" where
  "upperChar c =
     (let n = (of_char c :: nat) in if 97 \<le> n \<and> n \<le> 122 then char_of (n - 32) else c)"

definition toLowerCase :: "string \<Rightarrow> string" where
  "toLowerCase str = map lowerChar str"

definition toUpperCase :: "string \<Rightarrow> string" where
  "toUpperCase str = map upperChar str"

definition isSpace :: "char \<Rightarrow> bool" where
  "isSpace c = (let n = (of_char c :: nat) in (9 \<le> n \<and> n \<le> 13) \<or> n = 32)"

definition trim :: "string \<Rightarrow> string" where
  "trim str = rev (dropWhile isSpace (rev (dropWhile isSpace str)))"

text \<open>
  The schema option \<^verbatim>\<open>match\<close> tests a text against a regular expression. The
  expressions of the schemas are anchored at both ends and are built from character
  classes, sequence, choice and repetition, so the test says whether the whole text is in
  the language of the expression. It is decided letter by letter: \<open>afterChar c p\<close>
  matches the texts \<open>w\<close> for which \<open>p\<close> matches \<open>c # w\<close>.
\<close>

definition isDigit :: "char \<Rightarrow> bool" where
  "isDigit c = (let n = (of_char c :: nat) in 48 \<le> n \<and> n \<le> 57)"

definition isUpper :: "char \<Rightarrow> bool" where
  "isUpper c = (let n = (of_char c :: nat) in 65 \<le> n \<and> n \<le> 90)"

definition isLower :: "char \<Rightarrow> bool" where
  "isLower c = (let n = (of_char c :: nat) in 97 \<le> n \<and> n \<le> 122)"

datatype charClass = WordChar | Digit | Upper | UpperOrDigit | DotOrDash | Literal char

fun inClass :: "charClass \<Rightarrow> char \<Rightarrow> bool" where
  "inClass WordChar c = (isUpper c \<or> isLower c \<or> isDigit c \<or> c = CHR ''_'')"
| "inClass Digit c = isDigit c"
| "inClass Upper c = isUpper c"
| "inClass UpperOrDigit c = (isUpper c \<or> isDigit c)"
| "inClass DotOrDash c = (c = CHR ''.'' \<or> c = CHR ''-'')"
| "inClass (Literal k) c = (c = k)"

datatype pattern =
  PNone | PEmpty | PChar charClass | PAlt pattern pattern | PSeq pattern pattern | PStar pattern

fun matchesEmpty :: "pattern \<Rightarrow> bool" where
  "matchesEmpty PNone = False"
| "matchesEmpty PEmpty = True"
| "matchesEmpty (PChar k) = False"
| "matchesEmpty (PAlt p q) = (matchesEmpty p \<or> matchesEmpty q)"
| "matchesEmpty (PSeq p q) = (matchesEmpty p \<and> matchesEmpty q)"
| "matchesEmpty (PStar p) = True"

text \<open>Choice and sequence of two patterns, without the parts that match nothing.\<close>

definition eitherOf :: "pattern \<Rightarrow> pattern \<Rightarrow> pattern" where
  "eitherOf p q =
     (case p of
        PNone \<Rightarrow> q
      | _ \<Rightarrow> (case q of PNone \<Rightarrow> p | _ \<Rightarrow> if p = q then p else PAlt p q))"

definition followedBy :: "pattern \<Rightarrow> pattern \<Rightarrow> pattern" where
  "followedBy p q = (case p of PNone \<Rightarrow> PNone | PEmpty \<Rightarrow> q | _ \<Rightarrow> PSeq p q)"

fun afterChar :: "char \<Rightarrow> pattern \<Rightarrow> pattern" where
  "afterChar c PNone = PNone"
| "afterChar c PEmpty = PNone"
| "afterChar c (PChar k) = (if inClass k c then PEmpty else PNone)"
| "afterChar c (PAlt p q) = eitherOf (afterChar c p) (afterChar c q)"
| "afterChar c (PSeq p q) =
     (if matchesEmpty p then eitherOf (followedBy (afterChar c p) q) (afterChar c q)
      else followedBy (afterChar c p) q)"
| "afterChar c (PStar p) = followedBy (afterChar c p) (PStar p)"

definition regexTest :: "pattern \<Rightarrow> string \<Rightarrow> bool" where
  "regexTest p str = matchesEmpty (fold afterChar str p)"

text \<open>\<^verbatim>\<open>p+\<close>, \<^verbatim>\<open>p?\<close>, \<^verbatim>\<open>p{n}\<close> and
  \<^verbatim>\<open>p{m,n}\<close>.\<close>

definition oneOrMore :: "pattern \<Rightarrow> pattern" where
  "oneOrMore p = PSeq p (PStar p)"

definition optional :: "pattern \<Rightarrow> pattern" where
  "optional p = PAlt PEmpty p"

primrec times :: "nat \<Rightarrow> pattern \<Rightarrow> pattern" where
  "times 0 p = PEmpty"
| "times (Suc n) p = PSeq p (times n p)"

definition between :: "nat \<Rightarrow> nat \<Rightarrow> pattern \<Rightarrow> pattern" where
  "between m n p = PSeq (times m p) (times (n - m) (optional p))"

text \<open>
  The expressions of the kept paths: \<^verbatim>\<open>/^[A-Z0-9]+$/\<close> of a roll number,
  \<^verbatim>\<open>/^\w+([\.-]?\w+)*@\w+([\.-]?\w+)*(\.\w{2,3})+$/\<close> of an email,
  \<^verbatim>\<open>/^[A-Z]{2,4}\d{3,4}$/\<close> of a course code and
  \<^verbatim>\<open>/^[A-Z]{2,6}$/\<close> of a department code.
\<close>

definition rollNumberPattern :: pattern where
  "rollNumberPattern = oneOrMore (PChar UpperOrDigit)"

definition emailPattern :: pattern where
  "emailPattern =
     (let w = oneOrMore (PChar WordChar);
          more = PStar (PSeq (optional (PChar DotOrDash)) w)
      in PSeq w (PSeq more (PSeq (PChar (Literal CHR ''@'')) (PSeq w (PSeq more
           (oneOrMore (PSeq (PChar (Literal CHR ''.'')) (between 2 3 (PChar WordChar)))))))))"

definition courseCodePattern :: pattern where
  "courseCodePattern = PSeq (between 2 4 (PChar Upper)) (between 3 4 (PChar Digit))"

definition departmentCodePattern :: pattern where
  "departmentCodePattern = between 2 6 (PChar Upper)"

text \<open>
  The setters of the Student schema: \<^verbatim>\<open>rollNumber\<close> is declared
  \<^verbatim>\<open>trim, uppercase\<close> and \<^verbatim>\<open>email\<close> is declared
  \<^verbatim>\<open>lowercase, trim\<close>; \<^verbatim>\<open>courseCode\<close> of a Course is
  \<^verbatim>\<open>trim, uppercase\<close>. Mongoose applies them when a path is set and when a
  filter on the path is cast.
\<close>

definition setRollNumber :: "string \<Rightarrow> string" where
  "setRollNumber r = toUpperCase (trim r)"

definition setEmail :: "string \<Rightarrow> string" where
  "setEmail e = toLowerCase (trim e)"

definition setCourseCode :: "string \<Rightarrow> string" where
  "setCourseCode c = toUpperCase (trim c)"

datatype departmentStatus = DeptActive | DeptInactive | DeptUnderMaintenance

datatype classStatus = ClassActive | ClassInactive | ClassCompleted

datatype courseStatus = CourseActive | CourseInactive | CourseCompleted | CourseCancelled

datatype studentStatus = StudentActive | StudentInactive | StudentGraduated | StudentSuspended

datatype gender = Male | Female | Other

text \<open>
  Each record keeps the paths of its schema that the controllers read or write, under the
  schema's names (prefixed where two schemas share a name). The field ending in
  \<open>OtherValid\<close> says whether the validators of all the remaining paths of the document
  accept it; for the paths kept here the validators are written out in the
  \<open>validate\<close> functions below.
\<close>

record departmentDoc =
  departmentId :: oid
  departmentName :: string
  departmentCode :: string
  totalFaculty :: int
  totalStudents :: int
  departmentStatus :: departmentStatus
  departmentOtherValid :: bool

record classDoc =
  classId :: oid
  className :: string
  classSection :: string
  capacity :: int
  currentStrength :: int
  classDepartment :: oid
  classStatus :: classStatus
  classOtherValid :: bool

record courseDoc =
  courseId :: oid
  courseName :: string
  courseCode :: string
  courseDepartment :: oid
  prerequisites :: "oid list"
  maxStudents :: "int option"
  enrolledStudents :: int
  courseStatus :: courseStatus
  courseOtherValid :: bool

record studentDoc =
  studentId :: oid
  studentName :: string
  rollNumber :: string
  email :: string
  studentClass :: oid
  studentDepartment :: oid
  studentCourses :: "oid list"
  studentStatus :: studentStatus
  studentGender :: gender
  studentOtherValid :: bool

record store =
  departments :: "departmentDoc list"
  classes :: "classDoc list"
  courses :: "courseDoc list"
  students :: "studentDoc list"


section \<open>Responses\<close>

text \<open>
  Every handler answers \<^verbatim>\<open>res.status(n).json({success, ...})\<close>. A failure carries
  the status and the handler's error message, one constructor per message, with the values
  the message interpolates.
\<close>

datatype failure =
    RollNumberExists
  | EmailExists
  | ClassNotFound
  | ClassFull
  | DepartmentNotFound
  | CoursesNotFound
  | CoursesFull "string list"
  | ValidationFailed
  | ServerError
  | StudentNotFound
  | NewClassNotFound
  | NewClassFull
  | NewDepartmentNotFound
  | StudentsArrayRequired
  | TooManyStudents
  | StudentIdRequired
  | CourseNotFound
  | CourseFull
  | AlreadyEnrolled
  | PrerequisitesNotMet
  | NotEnrolled
  | CourseHasStudents nat
  | CourseIsPrerequisite "string list"
  | ClassHasStudents nat
  | DepartmentHasRelated nat nat nat
  | CourseCodeExists
  | PrerequisitesNotFound
  | MaxStudentsBelowEnrolled int
  | SelfPrerequisite

datatype 'a response = Success nat 'a | Failure nat failure

fun isSuccess :: "'a response \<Rightarrow> bool" where
  "isSuccess (Success n x) = True"
| "isSuccess (Failure n e) = False"

text \<open>The error taxonomy of the specification, read off the message and its status.\<close>

datatype errorKind =
  ValidationError | NotFound | Conflict | CapacityExceeded | PrerequisiteUnmet | StorageError

fun kind :: "failure \<Rightarrow> errorKind" where
  "kind RollNumberExists = Conflict"
| "kind EmailExists = Conflict"
| "kind ClassNotFound = NotFound"
| "kind ClassFull = CapacityExceeded"
| "kind DepartmentNotFound = NotFound"
| "kind CoursesNotFound = NotFound"
| "kind (CoursesFull cs) = CapacityExceeded"
| "kind ValidationFailed = ValidationError"
| "kind ServerError = StorageError"
| "kind StudentNotFound = NotFound"
| "kind NewClassNotFound = NotFound"
| "kind NewClassFull = CapacityExceeded"
| "kind NewDepartmentNotFound = NotFound"
| "kind StudentsArrayRequired = ValidationError"
| "kind TooManyStudents = ValidationError"
| "kind StudentIdRequired = ValidationError"
| "kind CourseNotFound = NotFound"
| "kind CourseFull = CapacityExceeded"
| "kind AlreadyEnrolled = Conflict"
| "kind PrerequisitesNotMet = PrerequisiteUnmet"
| "kind NotEnrolled = Conflict"
| "kind (CourseHasStudents n) = Conflict"
| "kind (CourseIsPrerequisite ns) = Conflict"
| "kind (ClassHasStudents n) = Conflict"
| "kind (DepartmentHasRelated a b c) = Conflict"
| "kind CourseCodeExists = Conflict"
| "kind PrerequisitesNotFound = NotFound"
| "kind (MaxStudentsBelowEnrolled n) = ValidationError"
| "kind SelfPrerequisite = ValidationError"

text \<open>
  What a rejected \<^verbatim>\<open>save()\<close> throws: a Mongoose ValidationError, or the
  server's duplicate key error (E11000) of a unique index.
\<close>

datatype dbError = ValidationErr | DuplicateKey

text \<open>
  The \<^verbatim>\<open>catch\<close> block of createStudent, updateStudent, createCourse and
  updateCourse answers 400 to a ValidationError and 500 to anything else; the one of the
  other handlers answers 500 to everything.
\<close>

fun catchValidation :: "dbError \<Rightarrow> 'a response" where
  "catchValidation ValidationErr = Failure 400 ValidationFailed"
| "catchValidation DuplicateKey = Failure 500 ServerError"

fun catchAll :: "dbError \<Rightarrow> 'a response" where
  "catchAll e = Failure 500 ServerError"

section \<open>The collections\<close>

definition findDepartmentById :: "store \<Rightarrow> oid \<Rightarrow> departmentDoc option" where
  "findDepartmentById s i = find (\<lambda>d. departmentId d = i) (departments s)"

definition findClassById :: "store \<Rightarrow> oid \<Rightarrow> classDoc option" where
  "findClassById s i = find (\<lambda>c. classId c = i) (classes s)"

definition findCourseById :: "store \<Rightarrow> oid \<Rightarrow> courseDoc option" where
  "findCourseById s i = find (\<lambda>c. courseId c = i) (courses s)"

definition findStudentById :: "store \<Rightarrow> oid \<Rightarrow> studentDoc option" where
  "findStudentById s i = find (\<lambda>d. studentId d = i) (students s)"

text \<open>\<^verbatim>\<open>Course.find({ _id: { $in: ids } })\<close>\<close>

definition findCoursesIn :: "store \<Rightarrow> oid list \<Rightarrow> courseDoc list" where
  "findCoursesIn s ids = filter (\<lambda>c. courseId c \<in> set ids) (courses s)"

text \<open>\<^verbatim>\<open>Course.updateMany({ _id: { $in: ids } }, { $inc: { enrolledStudents: k } })\<close>:
  an update operator runs no validator.\<close>

definition incEnrolled :: "store \<Rightarrow> oid list \<Rightarrow> int \<Rightarrow> store" where
  "incEnrolled s ids k =
     s\<lparr>courses := map (\<lambda>c. if courseId c \<in> set ids
                             then c\<lparr>enrolledStudents := enrolledStudents c + k\<rparr> else c)
                      (courses s)\<rparr>"

text \<open>The virtual \<^verbatim>\<open>isFull\<close> of a course, as the controllers write it out:
  \<^verbatim>\<open>enrolledStudents >= maxStudents\<close> is false when maxStudents is undefined.\<close>

definition courseIsFull :: "courseDoc \<Rightarrow> bool" where
  "courseIsFull c = (case maxStudents c of None \<Rightarrow> False | Some m \<Rightarrow> enrolledStudents c \<ge> m)"

text \<open>
  The validators of the schemas, run by \<^verbatim>\<open>save()\<close>, for the paths that the
  records keep: \<^verbatim>\<open>required\<close> (a text must not be empty),
  \<^verbatim>\<open>minlength\<close>, \<^verbatim>\<open>maxlength\<close>, \<^verbatim>\<open>match\<close>,
  \<^verbatim>\<open>min\<close> and \<^verbatim>\<open>max\<close>. A status and a gender are in their
  \<^verbatim>\<open>enum\<close> by their type.
\<close>

definition validateDepartment :: "departmentDoc \<Rightarrow> bool" where
  "validateDepartment d \<longleftrightarrow>
     departmentName d \<noteq> [] \<and>
     departmentCode d \<noteq> [] \<and> regexTest departmentCodePattern (departmentCode d) \<and>
     0 \<le> totalFaculty d \<and> 0 \<le> totalStudents d \<and> departmentOtherValid d"

definition validateClass :: "classDoc \<Rightarrow> bool" where
  "validateClass c \<longleftrightarrow>
     className c \<noteq> [] \<and> classSection c \<noteq> [] \<and>
     1 \<le> capacity c \<and> capacity c \<le> 100 \<and> 0 \<le> currentStrength c \<and> classOtherValid c"

definition validateCourse :: "courseDoc \<Rightarrow> bool" where
  "validateCourse c \<longleftrightarrow>
     courseName c \<noteq> [] \<and>
     courseCode c \<noteq> [] \<and> regexTest courseCodePattern (courseCode c) \<and>
     (case maxStudents c of None \<Rightarrow> True | Some m \<Rightarrow> 1 \<le> m \<and> m \<le> 100) \<and>
     0 \<le> enrolledStudents c \<and> courseOtherValid c"

definition validateStudent :: "studentDoc \<Rightarrow> bool" where
  "validateStudent d \<longleftrightarrow>
     studentName d \<noteq> [] \<and> 3 \<le> length (studentName d) \<and> length (studentName d) \<le> 100 \<and>
     rollNumber d \<noteq> [] \<and> regexTest rollNumberPattern (rollNumber d) \<and>
     email d \<noteq> [] \<and> regexTest emailPattern (email d) \<and>
     studentOtherValid d"

text \<open>\<^verbatim>\<open>save()\<close> of a document that was loaded from its collection.\<close>

definition saveDepartment :: "store \<Rightarrow> departmentDoc \<Rightarrow> dbError + store" where
  "saveDepartment s d =
     (if validateDepartment d
      then Inr (s\<lparr>departments :=
                   map (\<lambda>x. if departmentId x = departmentId d then d else x) (departments s)\<rparr>)
      else Inl ValidationErr)"

definition saveClass :: "store \<Rightarrow> classDoc \<Rightarrow> dbError + store" where
  "saveClass s c =
     (if validateClass c
      then Inr (s\<lparr>classes := map (\<lambda>x. if classId x = classId c then c else x) (classes s)\<rparr>)
      else Inl ValidationErr)"

definition saveCourse :: "store \<Rightarrow> courseDoc \<Rightarrow> dbError + store" where
  "saveCourse s c =
     (if \<not> validateCourse c then Inl ValidationErr
      else if list_ex (\<lambda>x. courseId x \<noteq> courseId c \<and> courseCode x = courseCode c) (courses s)
      then Inl DuplicateKey
      else Inr (s\<lparr>courses := map (\<lambda>x. if courseId x = courseId c then c else x) (courses s)\<rparr>))"

definition saveStudent :: "store \<Rightarrow> studentDoc \<Rightarrow> dbError + store" where
  "saveStudent s d =
     (if \<not> validateStudent d then Inl ValidationErr
      else if list_ex (\<lambda>x. studentId x \<noteq> studentId d \<and>
                            (rollNumber x = rollNumber d \<or> email x = email d)) (students s)
      then Inl DuplicateKey
      else Inr (s\<lparr>students := map (\<lambda>x. if studentId x = studentId d then d else x) (students s)\<rparr>))"

text \<open>\<^verbatim>\<open>save()\<close> of a new document: validation, then the insert, which the unique
  indexes (\<^verbatim>\<open>_id\<close>, and for a student \<^verbatim>\<open>rollNumber\<close> and
  \<^verbatim>\<open>email\<close>, for a course \<^verbatim>\<open>courseCode\<close>) can refuse.\<close>

definition insertStudent :: "store \<Rightarrow> studentDoc \<Rightarrow> dbError + store" where
  "insertStudent s d =
     (if \<not> validateStudent d then Inl ValidationErr
      else if list_ex (\<lambda>x. studentId x = studentId d \<or> rollNumber x = rollNumber d \<or>
                            email x = email d) (students s)
      then Inl DuplicateKey
      else Inr (s\<lparr>students := students s @ [d]\<rparr>))"

definition insertCourse :: "store \<Rightarrow> courseDoc \<Rightarrow> dbError + store" where
  "insertCourse s c =
     (if \<not> validateCourse c then Inl ValidationErr
      else if list_ex (\<lambda>x. courseId x = courseId c \<or> courseCode x = courseCode c) (courses s)
      then Inl DuplicateKey
      else Inr (s\<lparr>courses := courses s @ [c]\<rparr>))"

section \<open>Student handlers\<close>

text \<open>
  The body of a create request (and one element of a bulk request). \<open>draftId\<close> is the
  \<^verbatim>\<open>_id\<close> the new document gets: the one the body gives, or else the one the
  driver generates. A path that the body does not have is \<open>None\<close>;
  \<^verbatim>\<open>courses\<close> absent is the empty list, which the handlers treat alike.
\<close>

record studentDraft =
  draftId :: oid
  draftName :: "string option"
  draftRollNumber :: "string option"
  draftEmail :: "string option"
  draftClass :: "oid option"
  draftDepartment :: "oid option"
  draftCourses :: "oid list"
  draftStatus :: studentStatus
  draftGender :: gender
  draftOtherValid :: bool

text \<open>\<^verbatim>\<open>!x\<close> on an optional string: undefined and the empty string are falsy.\<close>

fun falsy :: "string option \<Rightarrow> bool" where
  "falsy None = True"
| "falsy (Some str) = (str = [])"

text \<open>\<^verbatim>\<open>Student.findOne({ rollNumber: r })\<close> and
  \<^verbatim>\<open>Student.findOne({ email: e })\<close>; an undefined value matches no student.\<close>

definition findStudentByRollNumber :: "store \<Rightarrow> string option \<Rightarrow> studentDoc option" where
  "findStudentByRollNumber s r =
     (case r of None \<Rightarrow> None
      | Some v \<Rightarrow> find (\<lambda>d. rollNumber d = setRollNumber v) (students s))"

definition findStudentByEmail :: "store \<Rightarrow> string option \<Rightarrow> studentDoc option" where
  "findStudentByEmail s e =
     (case e of None \<Rightarrow> None
      | Some v \<Rightarrow> find (\<lambda>d. email d = setEmail v) (students s))"

text \<open>\<^verbatim>\<open>new Student({...body, email: ..., rollNumber: ...})\<close>: the setters run;
  a required reference that is missing fails validation at \<^verbatim>\<open>save()\<close>.\<close>

definition newStudent :: "studentDraft \<Rightarrow> string \<Rightarrow> string \<Rightarrow> dbError + studentDoc" where
  "newStudent b e r =
     (case (draftClass b, draftDepartment b) of
        (Some c, Some d) \<Rightarrow>
          Inr \<lparr>studentId = draftId b,
               studentName = (case draftName b of None \<Rightarrow> [] | Some n \<Rightarrow> trim n),
               rollNumber = setRollNumber r, email = setEmail e,
               studentClass = c, studentDepartment = d, studentCourses = draftCourses b,
               studentStatus = draftStatus b, studentGender = draftGender b,
               studentOtherValid = draftOtherValid b\<rparr>
      | _ \<Rightarrow> Inl ValidationErr)"

definition saveNewStudent :: "store \<Rightarrow> studentDraft \<Rightarrow> string \<Rightarrow> string \<Rightarrow> dbError + store" where
  "saveNewStudent s b e r =
     (case newStudent b e r of Inl err \<Rightarrow> Inl err | Inr d \<Rightarrow> insertStudent s d)"

text \<open>createStudent (POST /api/students).\<close>

definition createStudent :: "store \<Rightarrow> studentDraft \<Rightarrow> studentDoc option response \<times> store" where
  "createStudent s b =
     (if findStudentByRollNumber s (draftRollNumber b) \<noteq> None
      then (Failure 400 RollNumberExists, s)
      else case draftEmail b of
        None \<Rightarrow> (Failure 500 ServerError, s)
      | Some e \<Rightarrow>
      if findStudentByEmail s (Some (toLowerCase e)) \<noteq> None
      then (Failure 400 EmailExists, s)
      else case Option.bind (draftClass b) (findClassById s) of
        None \<Rightarrow> (Failure 404 ClassNotFound, s)
      | Some classExists \<Rightarrow>
      if currentStrength classExists \<ge> capacity classExists
      then (Failure 400 ClassFull, s)
      else case Option.bind (draftDepartment b) (findDepartmentById s) of
        None \<Rightarrow> (Failure 404 DepartmentNotFound, s)
      | Some departmentExists \<Rightarrow>
      let coursesExist = findCoursesIn s (draftCourses b);
          fullCourses = filter courseIsFull coursesExist
      in
      if draftCourses b \<noteq> [] \<and> length coursesExist \<noteq> length (draftCourses b)
      then (Failure 404 CoursesNotFound, s)
      else if draftCourses b \<noteq> [] \<and> fullCourses \<noteq> []
      then (Failure 400 (CoursesFull (map courseCode fullCourses)), s)
      else case draftRollNumber b of
        None \<Rightarrow> (Failure 500 ServerError, s)
      | Some r \<Rightarrow>
      (case saveNewStudent s b (toLowerCase e) (toUpperCase r) of
        Inl err \<Rightarrow> (catchValidation err, s)
      | Inr s1 \<Rightarrow>
      (case saveClass s1 (classExists\<lparr>currentStrength := currentStrength classExists + 1\<rparr>) of
        Inl err \<Rightarrow> (catchValidation err, s1)
      | Inr s2 \<Rightarrow>
      (case saveDepartment s2
              (departmentExists\<lparr>totalStudents := totalStudents departmentExists + 1\<rparr>) of
        Inl err \<Rightarrow> (catchValidation err, s2)
      | Inr s3 \<Rightarrow>
      let s4 = (if draftCourses b \<noteq> [] then incEnrolled s3 (draftCourses b) 1 else s3)
      in (Success 201 (findStudentById s4 (draftId b)), s4)))))"

text \<open>
  The body of an update request: the keys it has. \<open>patchOtherValid\<close> is \<open>None\<close> when
  the body has no key beside the ones listed, and otherwise says whether the document's
  remaining paths are valid once those keys are assigned.
\<close>

record studentPatch =
  patchName :: "string option"
  patchRollNumber :: "string option"
  patchEmail :: "string option"
  patchClass :: "oid option"
  patchDepartment :: "oid option"
  patchCourses :: "oid list option"
  patchOtherValid :: "bool option"

text \<open>\<^verbatim>\<open>Object.keys(req.body).forEach(key => student[key] = req.body[key])\<close>\<close>

definition applyStudentPatch :: "studentDoc \<Rightarrow> studentPatch \<Rightarrow> studentDoc" where
  "applyStudentPatch d p =
     d\<lparr>studentName := (case patchName p of None \<Rightarrow> studentName d | Some n \<Rightarrow> trim n),
       rollNumber := (case patchRollNumber p of None \<Rightarrow> rollNumber d | Some r \<Rightarrow> setRollNumber r),
       email := (case patchEmail p of None \<Rightarrow> email d | Some e \<Rightarrow> setEmail e),
       studentClass := (case patchClass p of None \<Rightarrow> studentClass d | Some c \<Rightarrow> c),
       studentDepartment := (case patchDepartment p of None \<Rightarrow> studentDepartment d | Some c \<Rightarrow> c),
       studentCourses := (case patchCourses p of None \<Rightarrow> studentCourses d | Some cs \<Rightarrow> cs),
       studentOtherValid := (case patchOtherValid p of None \<Rightarrow> studentOtherValid d | Some v \<Rightarrow> v)\<rparr>"

text \<open>The four parts of updateStudent, in the order of the handler. Each returns the
  response that ends the request early, or the store to go on with.\<close>

definition updateUniqueKeys ::
  "store \<Rightarrow> studentDoc \<Rightarrow> studentPatch \<Rightarrow> studentDoc option response + unit" where
  "updateUniqueKeys s student p =
     (if \<not> falsy (patchEmail p) \<and> patchEmail p \<noteq> Some (email student) \<and>
         list_ex (\<lambda>d. email d = setEmail (toLowerCase (the (patchEmail p))) \<and>
                       studentId d \<noteq> studentId student) (students s)
      then Inl (Failure 400 EmailExists)
      else if \<not> falsy (patchRollNumber p) \<and> patchRollNumber p \<noteq> Some (rollNumber student) \<and>
         list_ex (\<lambda>d. rollNumber d = setRollNumber (toUpperCase (the (patchRollNumber p))) \<and>
                       studentId d \<noteq> studentId student) (students s)
      then Inl (Failure 400 RollNumberExists)
      else Inr ())"

definition updateClassChange ::
  "store \<Rightarrow> studentDoc \<Rightarrow> studentPatch \<Rightarrow> (studentDoc option response \<times> store) + store" where
  "updateClassChange s student p =
     (case patchClass p of
        None \<Rightarrow> Inr s
      | Some c \<Rightarrow>
        if c = studentClass student then Inr s
        else case findClassById s c of
          None \<Rightarrow> Inl (Failure 404 NewClassNotFound, s)
        | Some newClass \<Rightarrow>
          if currentStrength newClass \<ge> capacity newClass
          then Inl (Failure 400 NewClassFull, s)
          else
            (case (case findClassById s (studentClass student) of
                     None \<Rightarrow> Inr s
                   | Some oldClass \<Rightarrow>
                       saveClass s (oldClass\<lparr>currentStrength := currentStrength oldClass - 1\<rparr>)) of
               Inl err \<Rightarrow> Inl (catchValidation err, s)
             | Inr s1 \<Rightarrow>
               (case saveClass s1 (newClass\<lparr>currentStrength := currentStrength newClass + 1\<rparr>) of
                  Inl err \<Rightarrow> Inl (catchValidation err, s1)
                | Inr s2 \<Rightarrow> Inr s2)))"

definition updateDepartmentChange ::
  "store \<Rightarrow> studentDoc \<Rightarrow> studentPatch \<Rightarrow> (studentDoc option response \<times> store) + store" where
  "updateDepartmentChange s student p =
     (case patchDepartment p of
        None \<Rightarrow> Inr s
      | Some c \<Rightarrow>
        if c = studentDepartment student then Inr s
        else case findDepartmentById s c of
          None \<Rightarrow> Inl (Failure 404 NewDepartmentNotFound, s)
        | Some newDepartment \<Rightarrow>
            (case (case findDepartmentById s (studentDepartment student) of
                     None \<Rightarrow> Inr s
                   | Some oldDepartment \<Rightarrow>
                       saveDepartment s
                         (oldDepartment\<lparr>totalStudents := totalStudents oldDepartment - 1\<rparr>)) of
               Inl err \<Rightarrow> Inl (catchValidation err, s)
             | Inr s1 \<Rightarrow>
               (case saveDepartment s1
                       (newDepartment\<lparr>totalStudents := totalStudents newDepartment + 1\<rparr>) of
                  Inl err \<Rightarrow> Inl (catchValidation err, s1)
                | Inr s2 \<Rightarrow> Inr s2)))"

definition updateCoursesChange ::
  "store \<Rightarrow> studentDoc \<Rightarrow> studentPatch \<Rightarrow> (studentDoc option response \<times> store) + store" where
  "updateCoursesChange s student p =
     (case patchCourses p of
        None \<Rightarrow> Inr s
      | Some newCourses \<Rightarrow>
        let oldCourses = studentCourses student;
            coursesToRemove = filter (\<lambda>c. c \<notin> set newCourses) oldCourses;
            coursesToAdd = filter (\<lambda>c. c \<notin> set oldCourses) newCourses;
            s1 = (if coursesToRemove \<noteq> [] then incEnrolled s coursesToRemove (- 1) else s);
            fullCourses = filter courseIsFull (findCoursesIn s1 coursesToAdd)
        in if coursesToAdd = [] then Inr s1
           else if fullCourses \<noteq> []
           then Inl (Failure 400 (CoursesFull (map courseCode fullCourses)), s1)
           else Inr (incEnrolled s1 coursesToAdd 1))"

text \<open>updateStudent (PUT /api/students/:id).\<close>

definition updateStudent ::
  "store \<Rightarrow> oid \<Rightarrow> studentPatch \<Rightarrow> studentDoc option response \<times> store" where
  "updateStudent s i p =
     (case findStudentById s i of
        None \<Rightarrow> (Failure 404 StudentNotFound, s)
      | Some student \<Rightarrow>
      (case updateUniqueKeys s student p of
        Inl r \<Rightarrow> (r, s)
      | Inr u \<Rightarrow>
      (case updateClassChange s student p of
        Inl out \<Rightarrow> out
      | Inr s1 \<Rightarrow>
      (case updateDepartmentChange s1 student p of
        Inl out \<Rightarrow> out
      | Inr s2 \<Rightarrow>
      (case updateCoursesChange s2 student p of
        Inl out \<Rightarrow> out
      | Inr s3 \<Rightarrow>
      (case saveStudent s3 (applyStudentPatch student p) of
        Inl err \<Rightarrow> (catchValidation err, s3)
      | Inr s4 \<Rightarrow> (Success 200 (findStudentById s4 i), s4)))))))"

text \<open>deleteStudent (DELETE /api/students/:id). The response names the deleted student.\<close>

definition deleteStudent ::
  "store \<Rightarrow> oid \<Rightarrow> (oid \<times> string \<times> string) response \<times> store" where
  "deleteStudent s i =
     (case findStudentById s i of
        None \<Rightarrow> (Failure 404 StudentNotFound, s)
      | Some student \<Rightarrow>
      (case (case findClassById s (studentClass student) of
               None \<Rightarrow> Inr s
             | Some classData \<Rightarrow>
                 saveClass s (classData\<lparr>currentStrength := currentStrength classData - 1\<rparr>)) of
        Inl err \<Rightarrow> (catchAll err, s)
      | Inr s1 \<Rightarrow>
      (case (case findDepartmentById s1 (studentDepartment student) of
               None \<Rightarrow> Inr s1
             | Some departmentData \<Rightarrow>
                 saveDepartment s1
                   (departmentData\<lparr>totalStudents := totalStudents departmentData - 1\<rparr>)) of
        Inl err \<Rightarrow> (catchAll err, s1)
      | Inr s2 \<Rightarrow>
      let s3 = (if studentCourses student \<noteq> []
                then incEnrolled s2 (studentCourses student) (- 1) else s2);
          s4 = s3\<lparr>students := filter (\<lambda>d. studentId d \<noteq> i) (students s3)\<rparr>
      in (Success 200 (i, studentName student, rollNumber student), s4))))"

text \<open>bulkCreateStudents (POST /api/students/bulk): the loop over the drafts, with the
  two result lists and the store as its state.\<close>

datatype itemError = MissingRequiredFields | DuplicateRollOrEmail | SaveFailed dbError

record bulkResults =
  successList :: "(oid \<times> string \<times> string) list"
  errorList :: "(studentDraft \<times> itemError) list"

definition bulkStep :: "bulkResults \<times> store \<Rightarrow> studentDraft \<Rightarrow> bulkResults \<times> store" where
  "bulkStep acc b =
     (let results = fst acc; s = snd acc in
      if falsy (draftName b) \<or> falsy (draftRollNumber b) \<or> falsy (draftEmail b)
      then (results\<lparr>errorList := errorList results @ [(b, MissingRequiredFields)]\<rparr>, s)
      else if list_ex (\<lambda>d. rollNumber d = setRollNumber (the (draftRollNumber b)) \<or>
                            email d = setEmail (the (draftEmail b))) (students s)
      then (results\<lparr>errorList := errorList results @ [(b, DuplicateRollOrEmail)]\<rparr>, s)
      else case saveNewStudent s b (toLowerCase (the (draftEmail b)))
                  (toUpperCase (the (draftRollNumber b))) of
        Inl err \<Rightarrow> (results\<lparr>errorList := errorList results @ [(b, SaveFailed err)]\<rparr>, s)
      | Inr s1 \<Rightarrow>
          (results\<lparr>successList := successList results @
              [(draftId b, trim (the (draftName b)), setRollNumber (toUpperCase (the (draftRollNumber b))))]\<rparr>,
           s1))"

text \<open>The response gives \<^verbatim>\<open>successful\<close> and \<^verbatim>\<open>failed\<close>, the lengths
  of the two lists, and the lists.\<close>

definition bulkCreateStudents ::
  "store \<Rightarrow> studentDraft list \<Rightarrow> (nat \<times> nat \<times> bulkResults) response \<times> store" where
  "bulkCreateStudents s ds =
     (if ds = [] then (Failure 400 StudentsArrayRequired, s)
      else if length ds > 100 then (Failure 400 TooManyStudents, s)
      else let out = foldl bulkStep (\<lparr>successList = [], errorList = []\<rparr>, s) ds;
               results = fst out
           in (Success 201 (length (successList results), length (errorList results), results),
               snd out))"

section \<open>Course handlers\<close>





text \<open>deleteCourse (DELETE /api/courses/:id).\<close>

definition deleteCourse :: "store \<Rightarrow> oid \<Rightarrow> (oid \<times> string \<times> string) response \<times> store" where
  "deleteCourse s i =
     (case findCourseById s i of
        None \<Rightarrow> (Failure 404 CourseNotFound, s)
      | Some course \<Rightarrow>
      let studentCount = length (filter (\<lambda>d. i \<in> set (studentCourses d)) (students s));
          dependentCourses = filter (\<lambda>c. i \<in> set (prerequisites c)) (courses s)
      in if studentCount > 0 then (Failure 400 (CourseHasStudents studentCount), s)
         else if dependentCourses \<noteq> []
         then (Failure 400 (CourseIsPrerequisite (map courseName dependentCourses)), s)
         else (Success 200 (i, courseName course, courseCode course),
               s\<lparr>courses := filter (\<lambda>c. courseId c \<noteq> i) (courses s)\<rparr>))"

text \<open>The body of a course create request; \<^verbatim>\<open>prerequisites\<close> absent is the
  empty list, \<^verbatim>\<open>enrolledStudents\<close> absent is the schema's default 0.\<close>

record courseDraft =
  cdraftId :: oid
  cdraftName :: "string option"
  cdraftCode :: "string option"
  cdraftDepartment :: "oid option"
  cdraftPrerequisites :: "oid list"
  cdraftMaxStudents :: "int option"
  cdraftEnrolledStudents :: "int option"
  cdraftStatus :: courseStatus
  cdraftOtherValid :: bool

definition newCourse :: "courseDraft \<Rightarrow> string \<Rightarrow> oid \<Rightarrow> courseDoc" where
  "newCourse b code dep =
     \<lparr>courseId = cdraftId b,
      courseName = (case cdraftName b of None \<Rightarrow> [] | Some n \<Rightarrow> trim n),
      courseCode = setCourseCode code,
      courseDepartment = dep,
      prerequisites = cdraftPrerequisites b,
      maxStudents = cdraftMaxStudents b,
      enrolledStudents = (case cdraftEnrolledStudents b of None \<Rightarrow> 0 | Some n \<Rightarrow> n),
      courseStatus = cdraftStatus b,
      courseOtherValid = cdraftOtherValid b\<rparr>"

text \<open>createCourse (POST /api/courses).\<close>

definition createCourse :: "store \<Rightarrow> courseDraft \<Rightarrow> courseDoc option response \<times> store" where
  "createCourse s b =
     (case cdraftCode b of
        None \<Rightarrow> (Failure 500 ServerError, s)
      | Some code \<Rightarrow>
      if list_ex (\<lambda>c. courseCode c = setCourseCode (toUpperCase code)) (courses s)
      then (Failure 400 CourseCodeExists, s)
      else case Option.bind (cdraftDepartment b) (findDepartmentById s) of
        None \<Rightarrow> (Failure 404 DepartmentNotFound, s)
      | Some departmentExists \<Rightarrow>
      if cdraftPrerequisites b \<noteq> [] \<and>
         length (findCoursesIn s (cdraftPrerequisites b)) \<noteq> length (cdraftPrerequisites b)
      then (Failure 404 PrerequisitesNotFound, s)
      else
      (case insertCourse s (newCourse b (toUpperCase code) (departmentId departmentExists)) of
        Inl err \<Rightarrow> (catchValidation err, s)
      | Inr s1 \<Rightarrow> (Success 201 (findCourseById s1 (cdraftId b)), s1)))"

text \<open>The body of a course update request: the keys it has, as for a student. The key
  \<^verbatim>\<open>prerequisites\<close> is the list of texts that the request gives.\<close>

record coursePatch =
  cpatchName :: "string option"
  cpatchCode :: "string option"
  cpatchDepartment :: "oid option"
  cpatchPrerequisites :: "string list option"
  cpatchMaxStudents :: "int option"
  cpatchEnrolledStudents :: "int option"
  cpatchStatus :: "courseStatus option"
  cpatchOtherValid :: "bool option"

text \<open>\<^verbatim>\<open>Object.keys(req.body).forEach(key => course[key] = req.body[key])\<close>;
  \<open>ids\<close> is the cast of the key \<^verbatim>\<open>prerequisites\<close>, if the body has it.\<close>

definition applyCoursePatch :: "courseDoc \<Rightarrow> coursePatch \<Rightarrow> oid list option \<Rightarrow> courseDoc" where
  "applyCoursePatch c p ids =
     c\<lparr>courseName := (case cpatchName p of None \<Rightarrow> courseName c | Some n \<Rightarrow> trim n),
       courseCode := (case cpatchCode p of None \<Rightarrow> courseCode c | Some v \<Rightarrow> setCourseCode v),
       courseDepartment := (case cpatchDepartment p of None \<Rightarrow> courseDepartment c | Some d \<Rightarrow> d),
       prerequisites := (case ids of None \<Rightarrow> prerequisites c | Some ps \<Rightarrow> ps),
       maxStudents := (case cpatchMaxStudents p of None \<Rightarrow> maxStudents c | Some m \<Rightarrow> Some m),
       enrolledStudents :=
         (case cpatchEnrolledStudents p of None \<Rightarrow> enrolledStudents c | Some n \<Rightarrow> n),
       courseStatus := (case cpatchStatus p of None \<Rightarrow> courseStatus c | Some v \<Rightarrow> v),
       courseOtherValid := (case cpatchOtherValid p of None \<Rightarrow> courseOtherValid c | Some v \<Rightarrow> v)\<rparr>"

text \<open>
  The prerequisite check of updateCourse: the failure that it answers, or else the
  identifiers to assign. \<^verbatim>\<open>Course.find({ _id: { $in: texts } })\<close> casts the
  texts (a CastError is answered 500 by the \<^verbatim>\<open>catch\<close>) and the number of
  courses found is compared with the number of texts; then
  \<^verbatim>\<open>texts.includes(course._id.toString())\<close> looks for the course's own text
  among the texts as the request spells them.
\<close>

definition checkPrerequisites ::
  "store \<Rightarrow> courseDoc \<Rightarrow> string list option \<Rightarrow> (nat \<times> failure) + oid list option" where
  "checkPrerequisites s course body =
     (case body of
        None \<Rightarrow> Inr None
      | Some texts \<Rightarrow>
        (case castObjectIds texts of
           None \<Rightarrow> Inl (500, ServerError)
         | Some ids \<Rightarrow>
             if length (findCoursesIn s ids) \<noteq> length texts
             then Inl (404, PrerequisitesNotFound)
             else if idText (courseId course) \<in> set texts then Inl (400, SelfPrerequisite)
             else Inr (Some ids)))"

text \<open>updateCourse (PUT /api/courses/:id). A number of the body is falsy when it is 0.\<close>

definition updateCourse :: "store \<Rightarrow> oid \<Rightarrow> coursePatch \<Rightarrow> courseDoc option response \<times> store" where
  "updateCourse s i p =
     (case findCourseById s i of
        None \<Rightarrow> (Failure 404 CourseNotFound, s)
      | Some course \<Rightarrow>
      if \<not> falsy (cpatchCode p) \<and> cpatchCode p \<noteq> Some (courseCode course) \<and>
         list_ex (\<lambda>c. courseCode c = setCourseCode (toUpperCase (the (cpatchCode p))) \<and>
                       courseId c \<noteq> courseId course) (courses s)
      then (Failure 400 CourseCodeExists, s)
      else if (case cpatchMaxStudents p of
                 None \<Rightarrow> False | Some m \<Rightarrow> m \<noteq> 0 \<and> m < enrolledStudents course)
      then (Failure 400 (MaxStudentsBelowEnrolled (enrolledStudents course)), s)
      else case checkPrerequisites s course (cpatchPrerequisites p) of
        Inl (n, e) \<Rightarrow> (Failure n e, s)
      | Inr ids \<Rightarrow>
      (case saveCourse s (applyCoursePatch course p ids) of
        Inl err \<Rightarrow> (catchValidation err, s)
      | Inr s1 \<Rightarrow> (Success 200 (findCourseById s1 i), s1)))"

section \<open>Class and department handlers\<close>

text \<open>deleteClass (DELETE /api/classes/:id).\<close>

definition deleteClass :: "store \<Rightarrow> oid \<Rightarrow> (oid \<times> string \<times> string) response \<times> store" where
  "deleteClass s i =
     (case findClassById s i of
        None \<Rightarrow> (Failure 404 ClassNotFound, s)
      | Some classData \<Rightarrow>
      let studentCount = length (filter (\<lambda>d. studentClass d = i) (students s))
      in if studentCount > 0 then (Failure 400 (ClassHasStudents studentCount), s)
         else (Success 200 (i, className classData, classSection classData),
               s\<lparr>classes := filter (\<lambda>c. classId c \<noteq> i) (classes s)\<rparr>))"

text \<open>deleteDepartment (DELETE /api/departments/:id).\<close>

definition deleteDepartment :: "store \<Rightarrow> oid \<Rightarrow> (oid \<times> string \<times> string) response \<times> store" where
  "deleteDepartment s i =
     (case findDepartmentById s i of
        None \<Rightarrow> (Failure 404 DepartmentNotFound, s)
      | Some department \<Rightarrow>
      let classCount = length (filter (\<lambda>c. classDepartment c = i) (classes s));
          studentCount = length (filter (\<lambda>d. studentDepartment d = i) (students s));
          courseCount = length (filter (\<lambda>c. courseDepartment c = i) (courses s))
      in if classCount > 0 \<or> studentCount > 0 \<or> courseCount > 0
         then (Failure 400 (DepartmentHasRelated classCount studentCount courseCount), s)
         else (Success 200 (i, departmentName department, departmentCode department),
               s\<lparr>departments := filter (\<lambda>d. departmentId d \<noteq> i) (departments s)\<rparr>))"

section \<open>Statistics reports\<close>






record classDepartmentRow =
  cdrDepartment :: oid
  cdrDepartmentName :: string
  classCount :: nat
  cdrTotalCapacity :: int
  cdrTotalStudents :: int
  cdrAvailableSeats :: int
  utilizationRate :: real









record courseDepartmentRow =
  kdrDepartment :: oid
  kdrDepartmentName :: string
  courseCount :: nat
  kdrTotalCapacity :: int
  kdrTotalEnrolled :: int
  kdrAvailableSeats :: int
  kdrEnrollmentRate :: real










record studentClassRow =
  scrClass :: oid
  scrClassName :: string
  studentCount :: nat
  scrCapacity :: int
  percentageFull :: real

definition countWhere :: "('a \<Rightarrow> bool) \<Rightarrow> 'a list \<Rightarrow> nat" where
  "countWhere P xs = length (filter P xs)"












section \<open>Properties of the store\<close>

text \<open>The three counters agree with the students: each class's
  \<^verbatim>\<open>currentStrength\<close>, each department's \<^verbatim>\<open>totalStudents\<close> and each
  course's \<^verbatim>\<open>enrolledStudents\<close> is the number of students that reference it.\<close>

definition countersConsistent :: "store \<Rightarrow> bool" where
  "countersConsistent s \<longleftrightarrow>
     list_all (\<lambda>c. currentStrength c = int (countWhere (\<lambda>d. studentClass d = classId c) (students s)))
       (classes s) \<and>
     list_all (\<lambda>d. totalStudents d =
                   int (countWhere (\<lambda>x. studentDepartment x = departmentId d) (students s)))
       (departments s) \<and>
     list_all (\<lambda>c. enrolledStudents c =
                   int (countWhere (\<lambda>d. courseId c \<in> set (studentCourses d)) (students s)))
       (courses s)"

text \<open>No course lists itself as a prerequisite.\<close>

definition noSelfPrerequisite :: "store \<Rightarrow> bool" where
  "noSelfPrerequisite s \<longleftrightarrow> list_all (\<lambda>c. courseId c \<notin> set (prerequisites c)) (courses s)"

text \<open>The counts that the message of a refused delete interpolates.\<close>

fun blockingCounts :: "failure \<Rightarrow> nat list" where
  "blockingCounts (CourseHasStudents n) = [n]"
| "blockingCounts (ClassHasStudents n) = [n]"
| "blockingCounts (DepartmentHasRelated a b c) = [a, b, c]"
| "blockingCounts e = []"














definition validDraft :: "store \<Rightarrow> studentDraft \<Rightarrow> bool" where
  "validDraft s b \<longleftrightarrow>
     (case (draftName b, draftRollNumber b, draftEmail b) of
        (Some n, Some r, Some e) \<Rightarrow>
          n \<noteq> [] \<and> r \<noteq> [] \<and> e \<noteq> [] \<and>
          (case newStudent b (toLowerCase e) (toUpperCase r) of
             Inl err \<Rightarrow> False
           | Inr d \<Rightarrow>
               validateStudent d \<and>
               \<not> list_ex (\<lambda>x. studentId x = studentId d \<or> rollNumber x = rollNumber d \<or>
                                 email x = email d) (students s))
      | _ \<Rightarrow> False)"


section \<open>A sample store\<close>

text \<open>One department; classes BSCSA (section A, one of ten seats taken), BSCSB (section B,
  empty) and BSCSF (section F, full), called A, B and F below; courses
  CS101, its dependent CS102, and CS103, which is full; Ann in class A taking CS103, and
  Bob in class F. The counters agree with the students.\<close>

definition sampleDepartment :: departmentDoc where
  "sampleDepartment =
     \<lparr>departmentId = 1, departmentName = ''Computing'', departmentCode = ''CS'',
      totalFaculty = 4, totalStudents = 2, departmentStatus = DeptActive,
      departmentOtherValid = True\<rparr>"

definition sampleClass :: "oid \<Rightarrow> string \<Rightarrow> int \<Rightarrow> int \<Rightarrow> classDoc" where
  "sampleClass i sec cap str =
     \<lparr>classId = i, className = ''BSCS'' @ sec, classSection = sec, capacity = cap,
      currentStrength = str, classDepartment = 1, classStatus = ClassActive,
      classOtherValid = True\<rparr>"

definition sampleCourse :: "oid \<Rightarrow> string \<Rightarrow> string \<Rightarrow> oid list \<Rightarrow> int \<Rightarrow> int \<Rightarrow> courseDoc" where
  "sampleCourse i nm code pre mx enr =
     \<lparr>courseId = i, courseName = nm, courseCode = code, courseDepartment = 1,
      prerequisites = pre, maxStudents = Some mx, enrolledStudents = enr,
      courseStatus = CourseActive, courseOtherValid = True\<rparr>"

definition sampleStudent :: "oid \<Rightarrow> string \<Rightarrow> string \<Rightarrow> string \<Rightarrow> oid \<Rightarrow> oid list \<Rightarrow> studentDoc" where
  "sampleStudent i nm roll mail cls crs =
     \<lparr>studentId = i, studentName = nm, rollNumber = roll, email = mail, studentClass = cls,
      studentDepartment = 1, studentCourses = crs, studentStatus = StudentActive,
      studentGender = Other, studentOtherValid = True\<rparr>"

definition sampleStore :: store where
  "sampleStore =
     \<lparr>departments = [sampleDepartment],
      classes = [sampleClass 10 ''A'' 10 1, sampleClass 11 ''B'' 10 0, sampleClass 12 ''F'' 1 1],
      courses = [sampleCourse 20 ''Programming'' ''CS101'' [] 30 0,
                 sampleCourse 21 ''Algorithms'' ''CS102'' [20] 30 0,
                 sampleCourse 22 ''Databases'' ''CS103'' [] 1 1],
      students = [sampleStudent 30 ''Ann'' ''R1'' ''ann@x.io'' 10 [22],
                  sampleStudent 31 ''Bob'' ''R2'' ''bob@x.io'' 12 []]\<rparr>"

definition sampleDraft :: "oid \<Rightarrow> string \<Rightarrow> string \<Rightarrow> string \<Rightarrow> oid \<Rightarrow> oid list \<Rightarrow> studentDraft" where
  "sampleDraft i nm roll mail cls crs =
     \<lparr>draftId = i, draftName = Some nm, draftRollNumber = Some roll, draftEmail = Some mail,
      draftClass = Some cls, draftDepartment = Some 1, draftCourses = crs,
      draftStatus = StudentActive, draftGender = Other, draftOtherValid = True\<rparr>"

text \<open>A body with the keys \<^verbatim>\<open>class\<close> and \<^verbatim>\<open>courses\<close> only.\<close>

definition samplePatch :: "oid \<Rightarrow> oid list \<Rightarrow> studentPatch" where
  "samplePatch cls crs =
     \<lparr>patchName = None, patchRollNumber = None, patchEmail = None, patchClass = Some cls,
      patchDepartment = None, patchCourses = Some crs, patchOtherValid = None\<rparr>"

text \<open>The store after a bulk request that adds Cyd to class A with course CS101 and Dia
  to class B.\<close>

definition driftedStore :: store where
  "driftedStore =
     snd (bulkCreateStudents sampleStore
            [sampleDraft 32 ''Cyd'' ''R3'' ''cyd@x.io'' 10 [20],
             sampleDraft 33 ''Dia'' ''R4'' ''dia@x.io'' 11 []])"

text \<open>A course body with prerequisites, and a body that only sets the prerequisites, to
  the texts given.\<close>

definition sampleCourseDraft :: "oid \<Rightarrow> string \<Rightarrow> oid list \<Rightarrow> courseDraft" where
  "sampleCourseDraft i code pre =
     \<lparr>cdraftId = i, cdraftName = Some ''Compilers'', cdraftCode = Some code,
      cdraftDepartment = Some 1, cdraftPrerequisites = pre, cdraftMaxStudents = Some 30,
      cdraftEnrolledStudents = None, cdraftStatus = CourseActive, cdraftOtherValid = True\<rparr>"

definition samplePrerequisitesPatch :: "string list \<Rightarrow> coursePatch" where
  "samplePrerequisitesPatch pre =
     \<lparr>cpatchName = None, cpatchCode = None, cpatchDepartment = None,
      cpatchPrerequisites = Some pre, cpatchMaxStudents = None, cpatchEnrolledStudents = None,
      cpatchStatus = None, cpatchOtherValid = None\<rparr>"

text \<open>The sample store after the course Compilers (CS201) is created with the
  prerequisite CS101 and the identifier 26, whose text is
  \<^verbatim>\<open>00000000000000000000001a\<close>.\<close>

definition compilersStore :: store where
  "compilersStore = snd (createCourse sampleStore (sampleCourseDraft 26 ''CS201'' [20]))"


section \<open>Student creation into a full class\<close>

text \<open>
  C2, as stated, fails: createStudent looks for the roll number and the email before it
  looks at the class, so a request into the full class F that reuses Ann's roll number is
  answered with the conflict, not with the capacity error.
\<close>

theorem createStudent_full_class_conflict:
  "Option.bind (draftClass (sampleDraft 35 ''Eve'' ''R1'' ''eve@x.io'' 12 [])) (findClassById sampleStore)
     = Some (sampleClass 12 ''F'' 1 1) \<and>
   currentStrength (sampleClass 12 ''F'' 1 1) \<ge> capacity (sampleClass 12 ''F'' 1 1) \<and>
   fst (createStudent sampleStore (sampleDraft 35 ''Eve'' ''R1'' ''eve@x.io'' 12 []))
     = Failure 400 RollNumberExists \<and>
   kind RollNumberExists = Conflict \<and> Conflict \<noteq> CapacityExceeded"
  by code_simp

text \<open>
  C2, amended: when the class that a create request names exists and is full
  (\<^verbatim>\<open>currentStrength >= capacity\<close>), createStudent fails and the store is what it
  was, so no student is persisted and no counter moves. The answer is one of four: the
  roll number conflict, the email conflict, 500 for a body without email, or the capacity
  error ``Class is full''; it is the capacity error whenever the roll number and the email
  of the request are not in use. The checks before the class check take precedence: a roll
  number in use is answered with the roll number conflict, otherwise a body without email
  with 500, otherwise an email in use with the email conflict.
\<close>

theorem createStudent_full_class:
  assumes "Option.bind (draftClass b) (findClassById s) = Some c"
    and "currentStrength c \<ge> capacity c"
  shows "\<not> isSuccess (fst (createStudent s b)) \<and> snd (createStudent s b) = s \<and>
         fst (createStudent s b) \<in>
           {Failure 400 RollNumberExists, Failure 500 ServerError, Failure 400 EmailExists,
            Failure 400 ClassFull} \<and>
         (\<forall>e. findStudentByRollNumber s (draftRollNumber b) = None \<and> draftEmail b = Some e \<and>
              findStudentByEmail s (Some (toLowerCase e)) = None
              \<longrightarrow> fst (createStudent s b) = Failure 400 ClassFull) \<and>
         (findStudentByRollNumber s (draftRollNumber b) \<noteq> None
              \<longrightarrow> fst (createStudent s b) = Failure 400 RollNumberExists) \<and>
         (findStudentByRollNumber s (draftRollNumber b) = None \<and> draftEmail b = None
              \<longrightarrow> fst (createStudent s b) = Failure 500 ServerError) \<and>
         (\<forall>e. findStudentByRollNumber s (draftRollNumber b) = None \<and> draftEmail b = Some e \<and>
              findStudentByEmail s (Some (toLowerCase e)) \<noteq> None
              \<longrightarrow> fst (createStudent s b) = Failure 400 EmailExists)"
  using assms by (auto simp: createStudent_def split: option.splits)

text \<open>Eve, with a roll number and an email of her own, asks for a seat in the full class F.\<close>

theorem createStudent_full_class_witness:
  "createStudent sampleStore (sampleDraft 35 ''Eve'' ''R9'' ''eve@x.io'' 12 [])
     = (Failure 400 ClassFull, sampleStore) \<and> kind ClassFull = CapacityExceeded"
proof -
  let ?b = "sampleDraft 35 ''Eve'' ''R9'' ''eve@x.io'' 12 []"
  have 1: "Option.bind (draftClass ?b) (findClassById sampleStore) = Some (sampleClass 12 ''F'' 1 1)"
    by code_simp
  have 2: "currentStrength (sampleClass 12 ''F'' 1 1) \<ge> capacity (sampleClass 12 ''F'' 1 1)"
    by code_simp
  have 3: "findStudentByRollNumber sampleStore (draftRollNumber ?b) = None"
    by code_simp
  have 4: "draftEmail ?b = Some ''eve@x.io''" by code_simp
  have 5: "findStudentByEmail sampleStore (Some (toLowerCase ''eve@x.io'')) = None"
    by code_simp
  from createStudent_full_class [OF 1 2] 3 4 5
  have "fst (createStudent sampleStore ?b) = Failure 400 ClassFull"
    and "snd (createStudent sampleStore ?b) = sampleStore" by blast+
  then show ?thesis by (simp add: prod_eq_iff)
qed

section \<open>Counters after a bulk request and after a delete\<close>

text \<open>
  C1 at a concrete request. The counters of the sample store agree with its students. A
  bulk request with one draft, Cyd for class A with course CS101, which passes the
  validators of the schema, is answered 201 with one success; afterwards class A has the two students Ann and Cyd while its
  \<^verbatim>\<open>currentStrength\<close> is still 1, and the counters no longer agree:
  bulkCreateStudents saves the student and increments nothing, where createStudent
  increments the class, the department and the courses.
\<close>

theorem bulkCreateStudents_leaves_counters:
  "countersConsistent sampleStore \<and>
   validDraft sampleStore (sampleDraft 32 ''Cyd'' ''R3'' ''cyd@x.io'' 10 [20]) \<and>
   fst (bulkCreateStudents sampleStore [sampleDraft 32 ''Cyd'' ''R3'' ''cyd@x.io'' 10 [20]])
     = Success 201 (1, 0, \<lparr>successList = [(32, ''Cyd'', ''R3'')], errorList = []\<rparr>) \<and>
   map studentId (filter (\<lambda>d. studentClass d = 10)
     (students (snd (bulkCreateStudents sampleStore [sampleDraft 32 ''Cyd'' ''R3'' ''cyd@x.io'' 10 [20]]))))
     = [30, 32] \<and>
   map_option currentStrength
     (findClassById (snd (bulkCreateStudents sampleStore [sampleDraft 32 ''Cyd'' ''R3'' ''cyd@x.io'' 10 [20]])) 10)
     = Some 1 \<and>
   countersConsistent (snd (bulkCreateStudents sampleStore [sampleDraft 32 ''Cyd'' ''R3'' ''cyd@x.io'' 10 [20]])) = False"
  by code_simp

text \<open>
  C3 at two concrete requests, in the store that the bulk request of Cyd and Dia leaves.
  Course CS101 has \<^verbatim>\<open>enrolledStudents = 0\<close> and Cyd takes it: deleting Cyd is
  answered 200 and leaves the counter at -1, since
  \<^verbatim>\<open>$inc: { enrolledStudents: -1 }\<close> has no floor. Class B has
  \<^verbatim>\<open>currentStrength = 0\<close> and Dia is in it: deleting Dia decrements to -1, the
  schema's \<^verbatim>\<open>min: 0\<close> refuses the save, and the request is answered 500 with Dia
  still in the store.
\<close>

theorem deleteStudent_no_floor:
  "map_option enrolledStudents (findCourseById driftedStore 20) = Some 0 \<and>
   map_option studentCourses (findStudentById driftedStore 32) = Some [20] \<and>
   fst (deleteStudent driftedStore 32) = Success 200 (32, ''Cyd'', ''R3'') \<and>
   map_option enrolledStudents (findCourseById (snd (deleteStudent driftedStore 32)) 20) = Some (- 1) \<and>
   map_option currentStrength (findClassById driftedStore 11) = Some 0 \<and>
   map_option studentClass (findStudentById driftedStore 33) = Some 11 \<and>
   deleteStudent driftedStore 33 = (Failure 500 ServerError, driftedStore)"
  by code_simp

section \<open>An update that fails after it has moved counters\<close>

lemma sample_partial_update:
  "fst (updateStudent sampleStore 31 (samplePatch 11 [22])) = Failure 400 (CoursesFull [''CS103'']) \<and>
   students (snd (updateStudent sampleStore 31 (samplePatch 11 [22]))) = students sampleStore \<and>
   map currentStrength (classes sampleStore) = [1, 0, 1] \<and>
   map currentStrength (classes (snd (updateStudent sampleStore 31 (samplePatch 11 [22])))) = [1, 1, 0]"
  by code_simp

text \<open>
  C10: there is an update request that updateStudent answers with a failure although it
  has changed class counters, the students being what they were. In the sample store, the
  request moves Bob from class F to class B, which has room, and adds the full course
  CS103: the two classes are saved with their new counters before the course is found
  full.
\<close>

theorem updateStudent_fails_after_changing_counters:
  "\<exists>s i p n e. fst (updateStudent s i p) = Failure n e \<and>
     students (snd (updateStudent s i p)) = students s \<and>
     map currentStrength (classes (snd (updateStudent s i p))) \<noteq> map currentStrength (classes s)"
proof -
  let ?out = "updateStudent sampleStore 31 (samplePatch 11 [22])"
  from sample_partial_update
  have "fst ?out = Failure 400 (CoursesFull [''CS103''])"
    and "students (snd ?out) = students sampleStore"
    and "map currentStrength (classes (snd ?out)) \<noteq> map currentStrength (classes sampleStore)"
    by simp_all
  then show ?thesis by blast
qed

section \<open>Enrolment and withdrawal\<close>














section \<open>Deleting what is still referenced\<close>

text \<open>
  C5, amended: deleting a department that a class, a student or a course references, a
  class that a student references, or a course that a student takes is refused with 400, a
  Conflict whose message gives the blocking counts (classes, students and courses of the
  department; students of the class; students of the course), and the store is what it
  was. Deleting a course that no student takes but that a course lists as a prerequisite is
  refused with 400, a Conflict whose message gives the names of the dependent courses, and
  the store is what it was.
\<close>

theorem delete_referenced_refused:
  "(\<forall>d. findDepartmentById s i = Some d \<and>
        (list_ex (\<lambda>c. classDepartment c = i) (classes s) \<or>
         list_ex (\<lambda>x. studentDepartment x = i) (students s) \<or>
         list_ex (\<lambda>c. courseDepartment c = i) (courses s)) \<longrightarrow>
        (\<exists>e. deleteDepartment s i = (Failure 400 e, s) \<and> kind e = Conflict \<and>
              blockingCounts e = [countWhere (\<lambda>c. classDepartment c = i) (classes s),
                                  countWhere (\<lambda>x. studentDepartment x = i) (students s),
                                  countWhere (\<lambda>c. courseDepartment c = i) (courses s)])) \<and>
   (\<forall>c. findClassById s i = Some c \<and> list_ex (\<lambda>x. studentClass x = i) (students s) \<longrightarrow>
        (\<exists>e. deleteClass s i = (Failure 400 e, s) \<and> kind e = Conflict \<and>
              blockingCounts e = [countWhere (\<lambda>x. studentClass x = i) (students s)])) \<and>
   (\<forall>c. findCourseById s i = Some c \<and> list_ex (\<lambda>x. i \<in> set (studentCourses x)) (students s) \<longrightarrow>
        (\<exists>e. deleteCourse s i = (Failure 400 e, s) \<and> kind e = Conflict \<and>
              blockingCounts e = [countWhere (\<lambda>x. i \<in> set (studentCourses x)) (students s)])) \<and>
   (\<forall>c. findCourseById s i = Some c \<and>
        list_all (\<lambda>x. i \<notin> set (studentCourses x)) (students s) \<and>
        list_ex (\<lambda>k. i \<in> set (prerequisites k)) (courses s) \<longrightarrow>
        deleteCourse s i
          = (Failure 400 (CourseIsPrerequisite
               (map courseName (filter (\<lambda>k. i \<in> set (prerequisites k)) (courses s)))), s) \<and>
        kind (CourseIsPrerequisite
               (map courseName (filter (\<lambda>k. i \<in> set (prerequisites k)) (courses s)))) = Conflict)"
  by (auto simp: deleteDepartment_def deleteClass_def deleteCourse_def countWhere_def Let_def
      list_ex_iff list_all_iff filter_empty_conv)


text \<open>
  C5, as stated, fails in one case: a course that no student takes but that another course
  lists as a prerequisite is refused with the names of the dependent courses; the message
  has no count. CS101 is a prerequisite of CS102 (``Algorithms'').
\<close>

theorem deleteCourse_prerequisite_names:
  "findCourseById sampleStore 20 = Some (sampleCourse 20 ''Programming'' ''CS101'' [] 30 0) \<and>
   map courseId (filter (\<lambda>k. 20 \<in> set (prerequisites k)) (courses sampleStore)) = [21] \<and>
   deleteCourse sampleStore 20
     = (Failure 400 (CourseIsPrerequisite [''Algorithms'']), sampleStore) \<and>
   blockingCounts (CourseIsPrerequisite [''Algorithms'']) = []"
  by code_simp

text \<open>
  In the sample store: the department, class A, the course CS103 that Ann takes, and the
  prerequisite CS101.
\<close>

theorem delete_referenced_refused_witness:
  "(\<exists>e. deleteDepartment sampleStore 1 = (Failure 400 e, sampleStore) \<and> kind e = Conflict \<and>
        blockingCounts e = [3, 2, 3]) \<and>
   (\<exists>e. deleteClass sampleStore 10 = (Failure 400 e, sampleStore) \<and> kind e = Conflict \<and>
        blockingCounts e = [1]) \<and>
   (\<exists>e. deleteCourse sampleStore 22 = (Failure 400 e, sampleStore) \<and> kind e = Conflict \<and>
        blockingCounts e = [1]) \<and>
   deleteCourse sampleStore 20 = (Failure 400 (CourseIsPrerequisite [''Algorithms'']), sampleStore)"
proof -
  note T = delete_referenced_refused
  have d: "findDepartmentById sampleStore 1 = Some sampleDepartment"
    and d1: "list_ex (\<lambda>c. classDepartment c = 1) (classes sampleStore)"
    and d2: "countWhere (\<lambda>c. classDepartment c = 1) (classes sampleStore) = 3"
    and d3: "countWhere (\<lambda>x. studentDepartment x = 1) (students sampleStore) = 2"
    and d4: "countWhere (\<lambda>c. courseDepartment c = 1) (courses sampleStore) = 3"
    by code_simp+
  have c: "findClassById sampleStore 10 = Some (sampleClass 10 ''A'' 10 1)"
    and c1: "list_ex (\<lambda>x. studentClass x = 10) (students sampleStore)"
    and c2: "countWhere (\<lambda>x. studentClass x = 10) (students sampleStore) = 1"
    by code_simp+
  have k: "findCourseById sampleStore 22 = Some (sampleCourse 22 ''Databases'' ''CS103'' [] 1 1)"
    and k1: "list_ex (\<lambda>x. 22 \<in> set (studentCourses x)) (students sampleStore)"
    and k2: "countWhere (\<lambda>x. 22 \<in> set (studentCourses x)) (students sampleStore) = 1"
    by code_simp+
  have p: "findCourseById sampleStore 20 = Some (sampleCourse 20 ''Programming'' ''CS101'' [] 30 0)"
    and p1: "list_all (\<lambda>x. 20 \<notin> set (studentCourses x)) (students sampleStore)"
    and p2: "list_ex (\<lambda>k. 20 \<in> set (prerequisites k)) (courses sampleStore)"
    and p3: "map courseName (filter (\<lambda>k. 20 \<in> set (prerequisites k)) (courses sampleStore))
               = [''Algorithms'']"
    by code_simp+
  have 1: "\<exists>e. deleteDepartment sampleStore 1 = (Failure 400 e, sampleStore) \<and> kind e = Conflict \<and>
        blockingCounts e = [3, 2, 3]"
    using T [of sampleStore 1] d d1 d2 d3 d4 by auto
  have 2: "\<exists>e. deleteClass sampleStore 10 = (Failure 400 e, sampleStore) \<and> kind e = Conflict \<and>
        blockingCounts e = [1]"
    using T [of sampleStore 10] c c1 c2 by auto
  have 3: "\<exists>e. deleteCourse sampleStore 22 = (Failure 400 e, sampleStore) \<and> kind e = Conflict \<and>
        blockingCounts e = [1]"
    using T [of sampleStore 22] k k1 k2 by auto
  have 4: "deleteCourse sampleStore 20
             = (Failure 400 (CourseIsPrerequisite [''Algorithms'']), sampleStore)"
    using T [of sampleStore 20] p p1 p2 p3 by auto
  from 1 2 3 4 show ?thesis by blast
qed

section \<open>A course as its own prerequisite\<close>

text \<open>
  C9 at a concrete request. Compilers is created with the prerequisite CS101, and no
  course of the store lists itself. An update of Compilers whose
  \<^verbatim>\<open>prerequisites\<close> name its own identifier in lower case, as
  \<^verbatim>\<open>toString()\<close> spells it, is refused with 400 (``Course cannot be a
  prerequisite of itself''). The same update with the identifier spelled in upper case is
  answered 200: \<^verbatim>\<open>Course.find\<close> casts the text and finds Compilers, so
  the prerequisite exists; \<^verbatim>\<open>includes\<close> compares the text as the request
  spells it with the lower-case text and does not find it; the assignment casts the text,
  and Compilers is saved as its own prerequisite.
\<close>

theorem updateCourse_own_prerequisite:
  "isSuccess (fst (createCourse sampleStore (sampleCourseDraft 26 ''CS201'' [20]))) \<and>
   map_option prerequisites (findCourseById compilersStore 26) = Some [20] \<and>
   noSelfPrerequisite compilersStore \<and>
   idText 26 = ''00000000000000000000001a'' \<and>
   updateCourse compilersStore 26 (samplePrerequisitesPatch [''00000000000000000000001a''])
     = (Failure 400 SelfPrerequisite, compilersStore) \<and>
   castObjectId ''00000000000000000000001A'' = Some 26 \<and>
   fst (updateCourse compilersStore 26 (samplePrerequisitesPatch [''00000000000000000000001A'']))
     = Success 200 (Some (sampleCourse 26 ''Compilers'' ''CS201'' [26] 30 0)) \<and>
   map_option prerequisites
     (findCourseById
        (snd (updateCourse compilersStore 26 (samplePrerequisitesPatch [''00000000000000000000001A''])))
        26) = Some [26] \<and>
   noSelfPrerequisite
     (snd (updateCourse compilersStore 26 (samplePrerequisitesPatch [''00000000000000000000001A''])))
     = False"
  by code_simp

section \<open>What the statistics reports answer\<close>

































section \<open>Bulk creation\<close>




















end
